theory Spec2Isabelle
  imports Complex_Main
begin

section \<open>Python values, exceptions and built-in operations used by the consumer\<close>

text \<open>
  The value that \<^verbatim>\<open>json.loads\<close> returns: \<^verbatim>\<open>None\<close>, a bool, an int, a float, a
  str, a list or a dict. A dict has unique keys, so it is an association list read with
  \<open>map_of\<close>. A float is an IEEE double: a finite one is \<open>JFloat\<close> with its exact
  value, and \<^verbatim>\<open>NaN\<close>, \<^verbatim>\<open>Infinity\<close> and \<^verbatim>\<open>-Infinity\<close>, which the decoder
  accepts, are the three values after it. The two zeros of IEEE are one value here: they
  are equal and differ in print only.
\<close>

datatype json =
    JNull
  | JBool bool
  | JInt int
  | JFloat rat
  | JNaN
  | JPosInf
  | JNegInf
  | JStr string
  | JArr "json list"
  | JObj "(string \<times> json) list"

text \<open>
  The exception classes that occur. \<open>OtherException\<close> stands for any other subclass of
  \<^verbatim>\<open>Exception\<close> (a broker error, say), \<open>OtherBaseException\<close> for any other class
  that derives from \<^verbatim>\<open>BaseException\<close> only.
\<close>

datatype exn =
    JSONDecodeError
  | AttributeError
  | TypeError
  | ValueError
  | OverflowError
  | OtherException string
  | KeyboardInterrupt
  | SystemExit int
  | OtherBaseException string

fun is_Exception :: "exn \<Rightarrow> bool" where
  "is_Exception KeyboardInterrupt = False"
| "is_Exception (SystemExit _) = False"
| "is_Exception (OtherBaseException _) = False"
| "is_Exception _ = True"

text \<open>
  \<^verbatim>\<open>bool\<close> is a subclass of \<^verbatim>\<open>int\<close>: \<^verbatim>\<open>True\<close> counts as 1 in arithmetic.
  \<open>num_val\<close> is the value of a finite number, \<open>int_val\<close> that of an int or bool,
  and \<open>number\<close> the value of any number, the three special floats included.
\<close>

fun num_val :: "json \<Rightarrow> rat option" where
  "num_val (JBool b) = Some (if b then 1 else 0)"
| "num_val (JInt i) = Some (of_int i)"
| "num_val (JFloat r) = Some r"
| "num_val _ = None"

fun int_val :: "json \<Rightarrow> int option" where
  "int_val (JBool b) = Some (if b then 1 else 0)"
| "int_val (JInt i) = Some i"
| "int_val _ = None"

datatype xnum = Finite rat | Pos_inf | Neg_inf | Not_a_number

fun number :: "json \<Rightarrow> xnum option" where
  "number (JBool b) = Some (Finite (if b then 1 else 0))"
| "number (JInt i) = Some (Finite (of_int i))"
| "number (JFloat r) = Some (Finite r)"
| "number JNaN = Some Not_a_number"
| "number JPosInf = Some Pos_inf"
| "number JNegInf = Some Neg_inf"
| "number _ = None"

fun json_of_xnum :: "xnum \<Rightarrow> json" where
  "json_of_xnum (Finite r) = JFloat r"
| "json_of_xnum Pos_inf = JPosInf"
| "json_of_xnum Neg_inf = JNegInf"
| "json_of_xnum Not_a_number = JNaN"

text \<open>
  The order of numbers. An int and a float are compared by their exact values; every
  comparison with \<^verbatim>\<open>NaN\<close> is false.
\<close>

fun xnum_lt :: "xnum \<Rightarrow> xnum \<Rightarrow> bool" where
  "xnum_lt (Finite a) (Finite b) = (a < b)"
| "xnum_lt (Finite a) Pos_inf = True"
| "xnum_lt Neg_inf (Finite b) = True"
| "xnum_lt Neg_inf Pos_inf = True"
| "xnum_lt _ _ = False"

definition num_lt :: "json \<Rightarrow> json \<Rightarrow> exn + bool" where
  "num_lt a b =
     (case (number a, number b) of
        (Some x, Some y) \<Rightarrow> Inr (xnum_lt x y)
      | _ \<Rightarrow> Inl TypeError)"

text \<open>
  Rounding of an exact value to the nearest double, ties to the even significand: a double
  in the binade \<open>2 ^ e \<le> a < 2 ^ (e + 1)\<close> is a multiple of \<open>2 ^ (e - 52)\<close>, below
  \<open>2 ^ - 1022\<close> of \<open>2 ^ - 1074\<close>, and a result of \<open>2 ^ 1024\<close> or more is an
  infinity. \<open>bit_length\<close> is \<^verbatim>\<open>int.bit_length\<close> on the ints from 0, and \<open>floor_log2 a\<close> the
  exponent \<open>e\<close> of the binade of \<open>a > 0\<close>.
\<close>

function bit_length :: "int \<Rightarrow> int" where
  "bit_length n = (if n \<le> 0 then 0 else 1 + bit_length (n div 2))"
  by pat_completeness auto
termination
  by (relation "measure nat") auto

declare bit_length.simps [simp del]

definition floor_log2 :: "rat \<Rightarrow> int" where
  "floor_log2 a =
     (if 1 \<le> a then bit_length \<lfloor>a\<rfloor> - 1
      else - bit_length (\<lceil>1 / a\<rceil> - 1))"

definition round_half_even :: "rat \<Rightarrow> int" where
  "round_half_even q =
     (let f = \<lfloor>q\<rfloor>; d = q - of_int f
      in if d < 1 / 2 then f
         else if 1 / 2 < d then f + 1
         else if even f then f else f + 1)"

definition round_double :: "rat \<Rightarrow> xnum" where
  "round_double q =
     (if q = 0 then Finite 0
      else
        (let a = \<bar>q\<bar>;
             e = max (floor_log2 a) (- 1022);
             ulp = 2 powi (e - 52);
             v = of_int (round_half_even (a / ulp)) * ulp
         in if 2 ^ 1024 \<le> v then (if q < 0 then Neg_inf else Pos_inf)
            else Finite (if q < 0 then - v else v)))"

text \<open>Strings are ordered lexicographically by code point.\<close>

fun str_lt :: "string \<Rightarrow> string \<Rightarrow> bool" where
  "str_lt [] [] = False"
| "str_lt [] (d # t) = True"
| "str_lt (c # s) [] = False"
| "str_lt (c # s) (d # t) =
     (if c = d then str_lt s t else (of_char c :: nat) < of_char d)"

text \<open>
  Equality of two items of a container, as the comparison of lists and dicts tests it: the
  items are the same object or \<^verbatim>\<open>a == b\<close>. It never raises on decoded values: numbers
  compare by value across bool, int and float, lists element by element, dicts key by key,
  and values of unrelated types are unequal. Every \<^verbatim>\<open>NaN\<close> that the decoder returns is
  the one object \<^verbatim>\<open>json.decoder.NaN\<close>, so as items two of them are equal.
\<close>

fun py_eq :: "json \<Rightarrow> json \<Rightarrow> bool"
  and py_eq_list :: "json list \<Rightarrow> json list \<Rightarrow> bool"
  and py_eq_dict :: "(string \<times> json) list \<Rightarrow> (string \<times> json) list \<Rightarrow> bool" where
  "py_eq JNull b = (b = JNull)"
| "py_eq (JBool x) b = (num_val b = Some (if x then 1 else 0))"
| "py_eq (JInt i) b = (num_val b = Some (of_int i))"
| "py_eq (JFloat r) b = (num_val b = Some r)"
| "py_eq JNaN b = (b = JNaN)"
| "py_eq JPosInf b = (b = JPosInf)"
| "py_eq JNegInf b = (b = JNegInf)"
| "py_eq (JStr s) b = (b = JStr s)"
| "py_eq (JArr xs) b = (case b of JArr ys \<Rightarrow> py_eq_list xs ys | _ \<Rightarrow> False)"
| "py_eq (JObj d) b =
     (case b of JObj e \<Rightarrow> length d = length e \<and> py_eq_dict d e | _ \<Rightarrow> False)"
| "py_eq_list [] ys = (ys = [])"
| "py_eq_list (x # xs) ys =
     (case ys of [] \<Rightarrow> False | y # ys' \<Rightarrow> py_eq x y \<and> py_eq_list xs ys')"
| "py_eq_dict [] e = True"
| "py_eq_dict (kv # d) e =
     (case map_of e (fst kv) of
        None \<Rightarrow> False
      | Some w \<Rightarrow> py_eq (snd kv) w \<and> py_eq_dict d e)"

text \<open>
  \<^verbatim>\<open>a < b\<close>: numbers by value, strings by \<open>str_lt\<close>, lists by their first differing
  element and then by length; every other pair of operands raises \<^verbatim>\<open>TypeError\<close>.
\<close>

fun py_lt :: "json \<Rightarrow> json \<Rightarrow> exn + bool"
  and py_lt_list :: "json list \<Rightarrow> json list \<Rightarrow> exn + bool" where
  "py_lt (JBool x) b = num_lt (JBool x) b"
| "py_lt (JInt i) b = num_lt (JInt i) b"
| "py_lt (JFloat q) b = num_lt (JFloat q) b"
| "py_lt JNaN b = num_lt JNaN b"
| "py_lt JPosInf b = num_lt JPosInf b"
| "py_lt JNegInf b = num_lt JNegInf b"
| "py_lt (JStr s) b = (case b of JStr t \<Rightarrow> Inr (str_lt s t) | _ \<Rightarrow> Inl TypeError)"
| "py_lt (JArr xs) b = (case b of JArr ys \<Rightarrow> py_lt_list xs ys | _ \<Rightarrow> Inl TypeError)"
| "py_lt JNull b = Inl TypeError"
| "py_lt (JObj d) b = Inl TypeError"
| "py_lt_list [] ys = Inr (ys \<noteq> [])"
| "py_lt_list (x # xs) ys =
     (case ys of
        [] \<Rightarrow> Inr False
      | y # ys' \<Rightarrow> if py_eq x y then py_lt_list xs ys' else py_lt x y)"

text \<open>\<^verbatim>\<open>a > b\<close> on these types is \<^verbatim>\<open>b < a\<close>.\<close>

definition py_gt :: "json \<Rightarrow> json \<Rightarrow> exn + bool" where
  "py_gt a b = py_lt b a"

text \<open>
  \<^verbatim>\<open>max(iterable)\<close> keeps the first element and replaces it by each later element that is
  greater; \<^verbatim>\<open>min\<close> by each later element that is less. An empty iterable raises
  \<^verbatim>\<open>ValueError\<close>; a comparison that raises ends the scan.
\<close>

fun max_scan :: "json \<Rightarrow> json list \<Rightarrow> exn + json" where
  "max_scan m [] = Inr m"
| "max_scan m (x # xs) =
     (case py_gt x m of
        Inl e \<Rightarrow> Inl e
      | Inr b \<Rightarrow> max_scan (if b then x else m) xs)"

fun min_scan :: "json \<Rightarrow> json list \<Rightarrow> exn + json" where
  "min_scan m [] = Inr m"
| "min_scan m (x # xs) =
     (case py_lt x m of
        Inl e \<Rightarrow> Inl e
      | Inr b \<Rightarrow> min_scan (if b then x else m) xs)"

fun py_max :: "json list \<Rightarrow> exn + json" where
  "py_max [] = Inl ValueError"
| "py_max (x # xs) = max_scan x xs"

fun py_min :: "json list \<Rightarrow> exn + json" where
  "py_min [] = Inl ValueError"
| "py_min (x # xs) = min_scan x xs"

text \<open>
  The operand of a float operation as a double: an int or bool is converted, which raises
  \<^verbatim>\<open>OverflowError\<close> when the int is too large for a double.
\<close>

fun to_double :: "json \<Rightarrow> exn + xnum" where
  "to_double (JBool b) = Inr (Finite (if b then 1 else 0))"
| "to_double (JInt i) =
     (case round_double (of_int i) of
        Finite r \<Rightarrow> Inr (Finite r)
      | _ \<Rightarrow> Inl OverflowError)"
| "to_double (JFloat r) = Inr (Finite r)"
| "to_double JNaN = Inr Not_a_number"
| "to_double JPosInf = Inr Pos_inf"
| "to_double JNegInf = Inr Neg_inf"
| "to_double _ = Inl TypeError"

text \<open>
  The difference of two doubles: the exact difference of two finite ones, rounded (to an
  infinity when it is too large); \<^verbatim>\<open>NaN\<close> when an operand is \<^verbatim>\<open>NaN\<close> or both are
  the same infinity.
\<close>

fun xnum_sub :: "xnum \<Rightarrow> xnum \<Rightarrow> xnum" where
  "xnum_sub (Finite a) (Finite b) = round_double (a - b)"
| "xnum_sub Not_a_number y = Not_a_number"
| "xnum_sub x Not_a_number = Not_a_number"
| "xnum_sub Pos_inf Pos_inf = Not_a_number"
| "xnum_sub Neg_inf Neg_inf = Not_a_number"
| "xnum_sub Pos_inf y = Pos_inf"
| "xnum_sub Neg_inf y = Neg_inf"
| "xnum_sub (Finite a) Pos_inf = Neg_inf"
| "xnum_sub (Finite a) Neg_inf = Pos_inf"

text \<open>
  \<^verbatim>\<open>a - b\<close>: the exact int when both operands are ints or bools; the difference of the
  operands as doubles when both are numbers and one is a float; \<^verbatim>\<open>TypeError\<close> when
  an operand is not a number.
\<close>

definition py_sub :: "json \<Rightarrow> json \<Rightarrow> exn + json" where
  "py_sub a b =
     (case (int_val a, int_val b) of
        (Some i, Some j) \<Rightarrow> Inr (JInt (i - j))
      | _ \<Rightarrow>
        (case (number a, number b) of
           (Some x, Some y) \<Rightarrow>
             (case to_double a of
                Inl e \<Rightarrow> Inl e
              | Inr x' \<Rightarrow>
                (case to_double b of
                   Inl e \<Rightarrow> Inl e
                 | Inr y' \<Rightarrow> Inr (json_of_xnum (xnum_sub x' y'))))
         | _ \<Rightarrow> Inl TypeError))"

text \<open>\<^verbatim>\<open>data.get(key)\<close> on a dict: the value, or \<^verbatim>\<open>None\<close> when the key is absent.\<close>

definition dict_get :: "(string \<times> json) list \<Rightarrow> string \<Rightarrow> json" where
  "dict_get d k = (case map_of d k of None \<Rightarrow> JNull | Some v \<Rightarrow> v)"

section \<open>The rolling window: \<^verbatim>\<open>collections.deque\<close> with \<^verbatim>\<open>maxlen\<close>\<close>

record 'a deque =
  items :: "'a list"
  maxlen :: nat

text \<open>
  \<^verbatim>\<open>deque(maxlen=n)\<close> raises \<^verbatim>\<open>ValueError\<close> for a negative \<open>n\<close> and
  \<^verbatim>\<open>OverflowError\<close> for an \<open>n\<close> beyond \<^verbatim>\<open>sys.maxsize\<close>, which is
  \<open>2 ^ 63 - 1\<close> on a 64-bit interpreter.
\<close>

definition deque_new :: "int \<Rightarrow> exn + 'a deque" where
  "deque_new n =
     (if n < 0 then Inl ValueError
      else if 2 ^ 63 \<le> n then Inl OverflowError
      else Inr \<lparr>items = [], maxlen = nat n\<rparr>)"

text \<open>
  \<^verbatim>\<open>append\<close> adds the element at the right end and then, when the deque has grown
  beyond \<^verbatim>\<open>maxlen\<close>, drops the leftmost element.
\<close>

definition deque_append :: "'a deque \<Rightarrow> 'a \<Rightarrow> 'a deque" where
  "deque_append d x =
     (let xs = items d @ [x]
      in d\<lparr>items := (if maxlen d < length xs then tl xs else xs)\<rparr>)"

text \<open>A sequence of pushes into the window, oldest first.\<close>

fun pushes :: "'a deque \<Rightarrow> 'a list \<Rightarrow> 'a deque" where
  "pushes d [] = d"
| "pushes d (v # vs) = pushes (deque_append d v) vs"

section \<open>The consumer: \<^verbatim>\<open>csv_consumer_Adeyemi.py\<close>\<close>

text \<open>
  One constructor for each logging statement of the consumer, with the data it prints, and
  \<open>Consumer_close\<close> for the call of \<^verbatim>\<open>consumer.close()\<close>.
\<close>

datatype log_event =
    Raw_message string
  | Processed_JSON_message json
  | Invalid_message_format string
  | Weather_Data json json json json
  | Temperature_range int json
  | JSON_decoding_error string
  | Error_processing_message string exn
  | START_consumer
  | Kafka_topic string
  | Kafka_consumer_group_id string
  | Rolling_window_size int
  | Consumer_topic_and_group string string
  | Polling_messages string
  | Received_message int string
  | Consumer_interrupted
  | Error_while_consuming exn
  | Consumer_close
  | Kafka_consumer_closed string

text \<open>
  The environment is what \<^verbatim>\<open>os.getenv\<close> reads. The built-in \<^verbatim>\<open>int\<close> applied to a
  string is the parameter \<open>py_int\<close>: \<open>None\<close> where it raises \<^verbatim>\<open>ValueError\<close>.
\<close>

type_synonym environ = "string \<Rightarrow> string option"

definition getenv :: "environ \<Rightarrow> string \<Rightarrow> string \<Rightarrow> string" where
  "getenv env name dflt = (case env name of None \<Rightarrow> dflt | Some s \<Rightarrow> s)"

definition getenv_int ::
  "(string \<Rightarrow> int option) \<Rightarrow> environ \<Rightarrow> string \<Rightarrow> int \<Rightarrow> exn + int" where
  "getenv_int py_int env name dflt =
     (case env name of
        None \<Rightarrow> Inr dflt
      | Some s \<Rightarrow> (case py_int s of None \<Rightarrow> Inl ValueError | Some n \<Rightarrow> Inr n))"

definition get_kafka_topic :: "environ \<Rightarrow> string" where
  "get_kafka_topic env = getenv env ''WEATHER_TOPIC'' ''weather_data_topic''"

definition get_kafka_consumer_group_id :: "environ \<Rightarrow> string" where
  "get_kafka_consumer_group_id env = getenv env ''WEATHER_CONSUMER_GROUP_ID'' ''weather_group''"

definition get_rolling_window_size :: "(string \<Rightarrow> int option) \<Rightarrow> environ \<Rightarrow> exn + int" where
  "get_rolling_window_size py_int env =
     getenv_int py_int env ''WEATHER_ROLLING_WINDOW_SIZE'' 5"

text \<open>
  The body of the \<^verbatim>\<open>try\<close> block of \<^verbatim>\<open>process_message\<close>. The decoder
  \<^verbatim>\<open>json.loads\<close> is the parameter \<open>loads\<close>: \<open>None\<close> where it raises
  \<^verbatim>\<open>JSONDecodeError\<close>. The result is the exception raised by the body, if any, with the
  window and the log as they are at that moment: an exception raised after the
  \<^verbatim>\<open>append\<close> leaves the new element in the window. \<^verbatim>\<open>.get\<close> on a decoded value
  that is not a dict raises \<^verbatim>\<open>AttributeError\<close>.
\<close>

definition process_message_body ::
  "(string \<Rightarrow> json option) \<Rightarrow> string \<Rightarrow> json deque \<Rightarrow> int \<Rightarrow> log_event list
   \<Rightarrow> exn option \<times> json deque \<times> log_event list" where
  "process_message_body loads message rolling_window window_size lg =
     (let log1 = lg @ [Raw_message message] in
      case loads message of
        None \<Rightarrow> (Some JSONDecodeError, rolling_window, log1)
      | Some data \<Rightarrow>
        (case data of
           JObj d \<Rightarrow>
             (let timestamp = dict_get d ''timestamp'';
                  temperature = dict_get d ''temperature'';
                  humidity = dict_get d ''humidity'';
                  pressure = dict_get d ''pressure'';
                  log2 = log1 @ [Processed_JSON_message data]
              in if JNull \<in> set [timestamp, temperature, humidity, pressure]
                 then (None, rolling_window, log2 @ [Invalid_message_format message])
                 else
                   (let window = deque_append rolling_window temperature;
                        log3 = log2 @ [Weather_Data timestamp temperature humidity pressure]
                    in if int (length (items window)) = window_size
                       then
                         (case py_max (items window) of
                            Inl e \<Rightarrow> (Some e, window, log3)
                          | Inr hi \<Rightarrow>
                            (case py_min (items window) of
                               Inl e \<Rightarrow> (Some e, window, log3)
                             | Inr lo \<Rightarrow>
                               (case py_sub hi lo of
                                  Inl e \<Rightarrow> (Some e, window, log3)
                                | Inr temp_range \<Rightarrow>
                                    (None, window,
                                     log3 @ [Temperature_range window_size temp_range]))))
                       else (None, window, log3)))
         | _ \<Rightarrow> (Some AttributeError, rolling_window, log1)))"

text \<open>
  \<^verbatim>\<open>process_message\<close>: the body under its two handlers. The first handler takes
  \<^verbatim>\<open>json.JSONDecodeError\<close>, the second every other instance of \<^verbatim>\<open>Exception\<close>; an
  exception of any other class leaves the function. The first component of the result is
  the exception that reaches the caller.
\<close>

definition process_message ::
  "(string \<Rightarrow> json option) \<Rightarrow> string \<Rightarrow> json deque \<Rightarrow> int \<Rightarrow> log_event list
   \<Rightarrow> exn option \<times> json deque \<times> log_event list" where
  "process_message loads message rolling_window window_size lg =
     (case process_message_body loads message rolling_window window_size lg of
        (None, window, lg') \<Rightarrow> (None, window, lg')
      | (Some e, window, lg') \<Rightarrow>
          if e = JSONDecodeError
          then (None, window, lg' @ [JSON_decoding_error message])
          else if is_Exception e
          then (None, window, lg' @ [Error_processing_message message e])
          else (Some e, window, lg'))"

text \<open>
  What iterating the Kafka consumer does at each step: it delivers a message (offset and
  value) or raises. The end of the list is the end of the iteration.
\<close>

datatype poll = Message int string | Poll_raises exn

text \<open>The \<^verbatim>\<open>for\<close> loop of \<^verbatim>\<open>main\<close>, inside the \<^verbatim>\<open>try\<close>.\<close>

fun poll_loop ::
  "(string \<Rightarrow> json option) \<Rightarrow> int \<Rightarrow> poll list \<Rightarrow> json deque \<Rightarrow> log_event list
   \<Rightarrow> exn option \<times> json deque \<times> log_event list" where
  "poll_loop loads window_size [] rolling_window lg = (None, rolling_window, lg)"
| "poll_loop loads window_size (Poll_raises e # rest) rolling_window lg =
     (Some e, rolling_window, lg)"
| "poll_loop loads window_size (Message offset message_str # rest) rolling_window lg =
     (case process_message loads message_str rolling_window window_size
             (lg @ [Received_message offset message_str]) of
        (Some e, window, lg') \<Rightarrow> (Some e, window, lg')
      | (None, window, lg') \<Rightarrow> poll_loop loads window_size rest window lg')"

record consumer_run =
  escaped :: "exn option"
  window :: "json deque option"
  logged :: "log_event list"

text \<open>The number of calls of \<^verbatim>\<open>consumer.close()\<close> in a run.\<close>

fun is_Consumer_close :: "log_event \<Rightarrow> bool" where
  "is_Consumer_close Consumer_close = True"
| "is_Consumer_close _ = False"

definition closes :: "consumer_run \<Rightarrow> nat" where
  "closes r = length (filter is_Consumer_close (logged r))"

text \<open>
  The \<^verbatim>\<open>try\<close> statement of \<^verbatim>\<open>main\<close>: the loop, the handlers for
  \<^verbatim>\<open>KeyboardInterrupt\<close> and \<^verbatim>\<open>Exception\<close>, and the \<^verbatim>\<open>finally\<close> clause that
  closes the consumer.
\<close>

definition consume ::
  "(string \<Rightarrow> json option) \<Rightarrow> string \<Rightarrow> int \<Rightarrow> poll list \<Rightarrow> json deque \<Rightarrow> log_event list
   \<Rightarrow> consumer_run" where
  "consume loads topic window_size consumer rolling_window log0 =
     (case poll_loop loads window_size consumer rolling_window log0 of
        (r, w, l) \<Rightarrow>
          (let handled =
                 (case r of
                    None \<Rightarrow> (None, l)
                  | Some e \<Rightarrow>
                      if e = KeyboardInterrupt then (None, l @ [Consumer_interrupted])
                      else if is_Exception e then (None, l @ [Error_while_consuming e])
                      else (Some e, l))
           in \<lparr>escaped = fst handled, window = Some w,
                logged = snd handled @ [Consumer_close, Kafka_consumer_closed topic]\<rparr>))"

text \<open>
  \<^verbatim>\<open>main\<close> of the consumer. \<^verbatim>\<open>create_kafka_consumer\<close> lives in a module that is
  not part of the sources at hand: its outcome is a parameter, either the exception it
  raises or the sequence of polls that iterating the returned consumer produces. Whatever
  is raised before the \<^verbatim>\<open>try\<close> statement leaves \<^verbatim>\<open>main\<close> with no consumer to close.
\<close>

definition consumer_main ::
  "(string \<Rightarrow> int option) \<Rightarrow> (string \<Rightarrow> json option) \<Rightarrow> environ \<Rightarrow> exn + poll list
   \<Rightarrow> consumer_run" where
  "consumer_main py_int loads env create_kafka_consumer =
     (let topic = get_kafka_topic env;
          group_id = get_kafka_consumer_group_id env;
          log1 = [START_consumer, Kafka_topic topic, Kafka_consumer_group_id group_id]
      in case get_rolling_window_size py_int env of
           Inl e \<Rightarrow> \<lparr>escaped = Some e, window = None, logged = log1\<rparr>
         | Inr window_size \<Rightarrow>
           (let log2 = log1 @ [Rolling_window_size window_size,
                               Consumer_topic_and_group topic group_id,
                               Rolling_window_size window_size]
            in case deque_new window_size of
                 Inl e \<Rightarrow> \<lparr>escaped = Some e, window = None, logged = log2\<rparr>
               | Inr rolling_window \<Rightarrow>
                 (case create_kafka_consumer of
                    Inl e \<Rightarrow>
                      \<lparr>escaped = Some e, window = Some rolling_window, logged = log2\<rparr>
                  | Inr consumer \<Rightarrow>
                      consume loads topic window_size consumer rolling_window
                        (log2 @ [Polling_messages topic]))))"

section \<open>The producer: \<^verbatim>\<open>json_producer_Adeyemi.py\<close>\<close>

text \<open>\<^verbatim>\<open>str(n)\<close> for an int: its decimal digits, with a minus sign when negative.\<close>

definition digit_char :: "nat \<Rightarrow> char" where
  "digit_char n = ''0123456789'' ! (n mod 10)"

function str_nat :: "nat \<Rightarrow> string" where
  "str_nat n = (if n < 10 then [digit_char n] else str_nat (n div 10) @ [digit_char n])"
  by pat_completeness auto
termination
  by (relation "measure (\<lambda>n. n)") auto

declare str_nat.simps [simp del]

definition py_str :: "int \<Rightarrow> string" where
  "py_str i = (if i < 0 then CHR ''-'' # str_nat (nat (- i)) else str_nat (nat i))"

text \<open>The dict that the generator yields.\<close>

record ride_message =
  ride_id :: string
  service :: string
  status :: string
  duration :: int
  pickup_location :: string
  dropoff_location :: string

definition build_message :: "int \<Rightarrow> ride_message" where
  "build_message ride_id_counter =
     \<lparr>ride_id = py_str ride_id_counter,
      service = ''Uber'',
      status = (if ride_id_counter mod 2 = 0 then ''Completed'' else ''In Progress''),
      duration = ride_id_counter * 10,
      pickup_location = ''Downtown'',
      dropoff_location = (if ride_id_counter mod 2 = 0 then ''Airport'' else ''Hotel'')\<rparr>"

text \<open>
  What the producer does, in order: its logging statements, the calls of
  \<^verbatim>\<open>time.sleep\<close> that return, of \<^verbatim>\<open>producer.send\<close> that return, and of
  \<^verbatim>\<open>producer.close\<close>.
\<close>

datatype prod_event =
    START_producer
  | Producer_kafka_topic string
  | Message_interval int
  | Failed_to_create_producer
  | Topic_is_ready string
  | Failed_to_create_topic string exn
  | Starting_production string
  | Generated_JSON ride_message
  | Sleep int
  | Send string ride_message
  | Sent_message string ride_message
  | Producer_interrupted
  | Error_during_production exn
  | Close
  | Kafka_producer_closed
  | END_producer

definition producer_get_kafka_topic :: "environ \<Rightarrow> string" where
  "producer_get_kafka_topic env = getenv env ''TRANSPORT_TOPIC'' ''transportation_updates''"

definition get_message_interval :: "(string \<Rightarrow> int option) \<Rightarrow> environ \<Rightarrow> exn + int" where
  "get_message_interval py_int env =
     getenv_int py_int env ''TRANSPORT_INTERVAL_SECONDS'' 2"

text \<open>
  The generator \<^verbatim>\<open>generate_messages\<close> is either not yet started or suspended at its
  \<^verbatim>\<open>yield\<close> with the current value of \<^verbatim>\<open>ride_id_counter\<close>. \<open>gen_next\<close> is one
  call of \<^verbatim>\<open>next\<close>: the first runs from the top to the \<^verbatim>\<open>yield\<close>; every later one
  resumes after the \<^verbatim>\<open>yield\<close>, increments the counter, sleeps and runs the loop body
  to the \<^verbatim>\<open>yield\<close> again. The second argument is what \<^verbatim>\<open>time.sleep\<close> does in this
  call: it returns (\<open>None\<close>) or raises (an interrupt, say), which leaves the generator.
\<close>

datatype gen_state = Created | Suspended int

fun gen_next ::
  "gen_state \<Rightarrow> exn option \<Rightarrow> prod_event list \<times> (exn + ride_message \<times> gen_state)" where
  "gen_next Created sleep_outcome =
     (let ride_id_counter = 1; message = build_message ride_id_counter
      in ([Generated_JSON message], Inr (message, Suspended ride_id_counter)))"
| "gen_next (Suspended c) sleep_outcome =
     (let ride_id_counter = c + 1
      in case sleep_outcome of
           Some e \<Rightarrow> ([], Inl e)
         | None \<Rightarrow>
             (let message = build_message ride_id_counter
              in ([Sleep 2, Generated_JSON message],
                  Inr (message, Suspended ride_id_counter))))"

text \<open>
  The body of the \<^verbatim>\<open>for\<close> loop of \<^verbatim>\<open>main\<close>: the message is sent and the fact is
  logged. The last argument is what \<^verbatim>\<open>producer.send\<close> does: it returns or raises.
\<close>

definition send_message ::
  "string \<Rightarrow> ride_message \<Rightarrow> exn option \<Rightarrow> prod_event list \<times> exn option" where
  "send_message topic message_dict send_outcome =
     (case send_outcome of
        Some e \<Rightarrow> ([], Some e)
      | None \<Rightarrow> ([Send topic message_dict, Sent_message topic message_dict], None))"

text \<open>
  The \<^verbatim>\<open>for\<close> loop over the generator never ends by itself. Each element of the list
  gives the outcomes of \<^verbatim>\<open>time.sleep\<close> and of \<^verbatim>\<open>producer.send\<close> in one iteration;
  when the list is used up the loop is still running.
\<close>

datatype loop_result = Still_running | Loop_raised exn

fun send_loop ::
  "string \<Rightarrow> gen_state \<Rightarrow> (exn option \<times> exn option) list \<Rightarrow> prod_event list
   \<Rightarrow> loop_result \<times> prod_event list" where
  "send_loop topic g [] tr = (Still_running, tr)"
| "send_loop topic g ((sleep_outcome, send_outcome) # ticks) tr =
     (case gen_next g sleep_outcome of
        (evs, Inl e) \<Rightarrow> (Loop_raised e, tr @ evs)
      | (evs, Inr (message_dict, g')) \<Rightarrow>
          (case send_message topic message_dict send_outcome of
             (evs', Some e) \<Rightarrow> (Loop_raised e, tr @ evs @ evs')
           | (evs', None) \<Rightarrow> send_loop topic g' ticks (tr @ evs @ evs')))"

datatype run_outcome = Returned | Raised exn | Running

record producer_run =
  outcome :: run_outcome
  trace :: "prod_event list"

text \<open>
  \<^verbatim>\<open>sys.exit(n)\<close> raises \<^verbatim>\<open>SystemExit(n)\<close>. When it leaves \<^verbatim>\<open>main\<close> the
  interpreter ends with status \<open>n\<close>; a return from \<^verbatim>\<open>main\<close> ends it with status 0.
\<close>

definition sys_exit :: "int \<Rightarrow> run_outcome" where
  "sys_exit n = Raised (SystemExit n)"

fun exit_status :: "run_outcome \<Rightarrow> int option" where
  "exit_status Returned = Some 0"
| "exit_status (Raised (SystemExit n)) = Some n"
| "exit_status _ = None"

text \<open>
  \<^verbatim>\<open>main\<close> of the producer. \<^verbatim>\<open>verify_services\<close>, \<^verbatim>\<open>create_kafka_producer\<close> and
  \<^verbatim>\<open>create_kafka_topic\<close> live in a module that is not part of the sources at hand;
  their outcomes are parameters: the exception raised, if any, and for
  \<^verbatim>\<open>create_kafka_producer\<close> whether the object returned is truthy (it is not for
  \<^verbatim>\<open>None\<close>).
\<close>

definition producer_main ::
  "(string \<Rightarrow> int option) \<Rightarrow> environ \<Rightarrow> exn option \<Rightarrow> exn + bool \<Rightarrow> exn option
   \<Rightarrow> (exn option \<times> exn option) list \<Rightarrow> producer_run" where
  "producer_main py_int env verify_services create_kafka_producer create_kafka_topic ticks =
     (let tr0 = [START_producer] in
      case verify_services of
        Some e \<Rightarrow> \<lparr>outcome = Raised e, trace = tr0\<rparr>
      | None \<Rightarrow>
        (let topic = producer_get_kafka_topic env;
             tr1 = tr0 @ [Producer_kafka_topic topic]
         in case get_message_interval py_int env of
              Inl e \<Rightarrow> \<lparr>outcome = Raised e, trace = tr1\<rparr>
            | Inr interval_secs \<Rightarrow>
              (let tr2 = tr1 @ [Message_interval interval_secs]
               in case create_kafka_producer of
                    Inl e \<Rightarrow> \<lparr>outcome = Raised e, trace = tr2\<rparr>
                  | Inr producer \<Rightarrow>
                    if \<not> producer
                    then \<lparr>outcome = sys_exit 3, trace = tr2 @ [Failed_to_create_producer]\<rparr>
                    else
                      (case create_kafka_topic of
                         Some e \<Rightarrow>
                           if is_Exception e
                           then \<lparr>outcome = sys_exit 1,
                                 trace = tr2 @ [Failed_to_create_topic topic e]\<rparr>
                           else \<lparr>outcome = Raised e, trace = tr2\<rparr>
                       | None \<Rightarrow>
                           (case send_loop topic Created ticks
                                   (tr2 @ [Topic_is_ready topic, Starting_production topic]) of
                              (Still_running, tr) \<Rightarrow> \<lparr>outcome = Running, trace = tr\<rparr>
                            | (Loop_raised e, tr) \<Rightarrow>
                                if e = KeyboardInterrupt
                                then \<lparr>outcome = Returned,
                                      trace = tr @ [Producer_interrupted, Close,
                                                    Kafka_producer_closed, END_producer]\<rparr>
                                else if is_Exception e
                                then \<lparr>outcome = Returned,
                                      trace = tr @ [Error_during_production e, Close,
                                                    Kafka_producer_closed, END_producer]\<rparr>
                                else \<lparr>outcome = Raised e,
                                      trace = tr @ [Close, Kafka_producer_closed]\<rparr>)))))"

section \<open>Auxiliary notions for the statements\<close>




text \<open>
  Sample payloads in the format of the module's docstring, and what \<^verbatim>\<open>json.loads\<close>
  returns for them. \<open>sample_loads\<close> agrees with \<^verbatim>\<open>json.loads\<close> on the payloads
  listed and on payloads cut short, which do not decode; it is used at those only.
\<close>

definition payload :: "string \<Rightarrow> string \<Rightarrow> string" where
  \<open>payload ts temp =
     ''{"timestamp": "'' @ ts @ ''", "temperature": '' @ temp @
     '', "humidity": 60, "pressure": 1013.5}''\<close>

definition payload_no_temperature :: string where
  \<open>payload_no_temperature = ''{"timestamp": "t1", "humidity": 60, "pressure": 1013.5}''\<close>

definition payload_truncated :: string where
  \<open>payload_truncated = ''{"timestamp": "t1", "temperature": 2''\<close>

definition text_hot :: string where
  \<open>text_hot = ''"hot"''\<close>

definition reading :: "string \<Rightarrow> json \<Rightarrow> json" where
  "reading ts temp =
     JObj [(''timestamp'', JStr ts), (''temperature'', temp), (''humidity'', JInt 60),
           (''pressure'', JFloat (2027 / 2))]"

definition sample_loads :: "string \<Rightarrow> json option" where
  \<open>sample_loads =
     map_of
       [(payload ''t1'' ''20'', reading ''t1'' (JInt 20)),
        (payload ''t2'' ''21'', reading ''t2'' (JInt 21)),
        (payload ''t3'' ''19'', reading ''t3'' (JInt 19)),
        (payload ''t4'' ''22'', reading ''t4'' (JInt 22)),
        (payload ''t5'' ''23'', reading ''t5'' (JInt 23)),
        (payload ''t6'' ''18'', reading ''t6'' (JInt 18)),
        (payload ''t7'' ''2.0'', reading ''t7'' (JFloat 2)),
        (payload ''t8'' ''5.0'', reading ''t8'' (JFloat 5)),
        (payload ''t9'' ''3.0'', reading ''t9'' (JFloat 3)),
        (payload ''t10'' text_hot, reading ''t10'' (JStr ''hot'')),
        (payload_no_temperature,
         JObj [(''timestamp'', JStr ''t1''), (''humidity'', JInt 60),
               (''pressure'', JFloat (2027 / 2))])]\<close>

text \<open>The messages yielded by \<open>n\<close> successive calls of \<^verbatim>\<open>next\<close> whose sleeps return.\<close>

fun gen_calls :: "gen_state \<Rightarrow> nat \<Rightarrow> ride_message list" where
  "gen_calls g 0 = []"
| "gen_calls g (Suc n) =
     (case snd (gen_next g None) of
        Inl e \<Rightarrow> []
      | Inr (message, g') \<Rightarrow> message # gen_calls g' n)"

fun is_Sleep :: "prod_event \<Rightarrow> bool" where
  "is_Sleep (Sleep secs) = True"
| "is_Sleep _ = False"

fun is_Send :: "prod_event \<Rightarrow> bool" where
  "is_Send (Send topic message) = True"
| "is_Send _ = False"

text \<open>
  An environment that sets the message interval to 5 seconds, and the built-in
  \<^verbatim>\<open>int\<close> on the one string read from it.
\<close>

definition interval_env :: environ where
  "interval_env name = (if name = ''TRANSPORT_INTERVAL_SECONDS'' then Some ''5'' else None)"

definition sample_int :: "string \<Rightarrow> int option" where
  "sample_int s = (if s = ''5'' then Some 5 else None)"

fun is_Message :: "poll \<Rightarrow> bool" where
  "is_Message (Message offset message_str) = True"
| "is_Message (Poll_raises e) = False"


section \<open>The rolling window is a bounded first-in first-out buffer\<close>

lemma maxlen_append: "maxlen (deque_append d x) = maxlen d"
  by (simp add: deque_append_def Let_def)

lemma items_append_room:
  "length (items d) < maxlen d \<Longrightarrow> items (deque_append d x) = items d @ [x]"
  by (simp add: deque_append_def Let_def)

lemma items_append_full:
  "length (items d) = maxlen d \<Longrightarrow> items (deque_append d x) = tl (items d @ [x])"
  by (simp add: deque_append_def Let_def)

lemma length_append_le:
  "length (items d) \<le> maxlen d \<Longrightarrow> length (items (deque_append d x)) \<le> maxlen d"
  by (simp add: deque_append_def Let_def)

text \<open>
  A window within its capacity holds, after any pushes, the last \<open>maxlen\<close> elements of
  what it held followed by what was pushed.
\<close>

lemma items_pushes:
  "length (items d) \<le> maxlen d \<Longrightarrow>
   items (pushes d vs) = drop (length (items d) + length vs - maxlen d) (items d @ vs)"
proof (induction vs arbitrary: d)
  case Nil
  then show ?case by simp
next
  case (Cons v vs)
  let ?d = "deque_append d v"
  have le: "length (items ?d) \<le> maxlen ?d"
    using Cons.prems by (simp add: length_append_le maxlen_append)
  have step: "items (pushes ?d vs) =
      drop (length (items ?d) + length vs - maxlen d) (items ?d @ vs)"
    using Cons.IH [OF le] by (simp add: maxlen_append)
  show ?case
  proof (cases "length (items d) < maxlen d")
    case True
    then show ?thesis using step by (simp add: items_append_room)
  next
    case False
    with Cons.prems have full: "length (items d) = maxlen d" by simp
    have a: "items ?d @ vs = drop 1 (items d @ v # vs)"
      using full by (cases "items d") (simp_all add: items_append_full)
    have b: "length (items ?d) = maxlen d"
      using full by (simp add: items_append_full)
    have "items (pushes ?d vs) = drop (length vs) (drop 1 (items d @ v # vs))"
      using step by (simp only: a b add_diff_cancel_left')
    also have "\<dots> = drop (length vs + 1) (items d @ v # vs)"
      by (simp only: drop_drop)
    also have "length vs + 1 = length (items d) + length (v # vs) - maxlen d"
      using full by simp
    finally show ?thesis by simp
  qed
qed

lemma pushes_new:
  "deque_new W = Inr d \<Longrightarrow> items (pushes d vs) = drop (length vs - nat W) vs"
  by (auto simp add: deque_new_def items_pushes split: if_splits)

text \<open>
  C2. For every capacity \<open>W \<ge> 1\<close> and every sequence of \<open>N > W\<close> values pushed into
  the window that \<^verbatim>\<open>main\<close> creates, the window afterwards holds exactly the last \<open>W\<close>
  values pushed, in the order of arrival: it has \<open>W\<close> elements and its \<open>i\<close>-th element
  is the value pushed at position \<open>N - W + i\<close>.
\<close>

theorem fifo_eviction:
  assumes "1 \<le> W" and "deque_new W = Inr d" and "nat W < length vs"
  shows "items (pushes d vs) = drop (length vs - nat W) vs
       \<and> length (items (pushes d vs)) = nat W
       \<and> (\<forall>i < nat W. items (pushes d vs) ! i = vs ! (length vs - nat W + i))"
proof -
  have eq: "items (pushes d vs) = drop (length vs - nat W) vs"
    using assms(2) by (rule pushes_new)
  have len: "length (items (pushes d vs)) = nat W"
    using assms(3) by (simp add: eq)
  have "items (pushes d vs) ! i = vs ! (length vs - nat W + i)" if "i < nat W" for i
    using that assms(3) by (simp add: eq)
  with eq len show ?thesis by blast
qed

theorem fifo_eviction_witness:
  "(1::int) \<le> 2 \<and> deque_new 2 = Inr \<lparr>items = ([]::json list), maxlen = 2\<rparr>
   \<and> nat 2 < length [JInt 10, JInt 20, JInt 30]
   \<and> items (pushes \<lparr>items = [], maxlen = 2\<rparr> [JInt 10, JInt 20, JInt 30])
       = [JInt 20, JInt 30]"
proof -
  have h1: "(1::int) \<le> 2" by simp
  have h2: "deque_new 2 = Inr \<lparr>items = ([]::json list), maxlen = 2\<rparr>"
    by (simp add: deque_new_def)
  have h3: "nat 2 < length [JInt 10, JInt 20, JInt 30]" by simp
  show ?thesis using fifo_eviction [OF h1 h2 h3] h2 by simp
qed

text \<open>
  C3, amended. After every number of pushes into the window that \<^verbatim>\<open>main\<close> creates
  with capacity \<open>W\<close>, the window has at most \<open>W\<close> elements. After \<open>W + 1\<close> pushes it
  holds exactly the second to the last value pushed: the element pushed first has been
  evicted, and the window no longer contains its value unless that value was pushed
  again among the following \<open>W\<close> pushes.
\<close>

theorem window_bound:
  assumes "deque_new W = Inr d"
  shows "(\<forall>k \<le> length vs. length (items (pushes d (take k vs))) \<le> nat W)
       \<and> (length vs = nat W + 1 \<longrightarrow>
            items (pushes d vs) = tl vs
            \<and> (hd vs \<notin> set (tl vs) \<longrightarrow> hd vs \<notin> set (items (pushes d vs))))"
proof -
  have "length (items (pushes d (take k vs))) \<le> nat W" for k
    by (simp add: pushes_new [OF assms])
  moreover have "items (pushes d vs) = tl vs" if "length vs = nat W + 1"
    using that by (simp add: pushes_new [OF assms] drop_Suc)
  ultimately show ?thesis by simp
qed

theorem window_bound_witness:
  "deque_new 2 = Inr \<lparr>items = ([]::json list), maxlen = 2\<rparr>
   \<and> length (items (pushes \<lparr>items = [], maxlen = 2\<rparr>
                (take 3 [JInt 10, JInt 20, JInt 30]))) \<le> nat 2
   \<and> length [JInt 10, JInt 20, JInt 30] = nat 2 + 1
   \<and> hd [JInt 10, JInt 20, JInt 30] \<notin> set (tl [JInt 10, JInt 20, JInt 30])
   \<and> hd [JInt 10, JInt 20, JInt 30]
        \<notin> set (items (pushes \<lparr>items = [], maxlen = 2\<rparr> [JInt 10, JInt 20, JInt 30]))"
proof -
  have h: "deque_new 2 = Inr \<lparr>items = ([]::json list), maxlen = 2\<rparr>"
    by (simp add: deque_new_def)
  show ?thesis using window_bound [OF h, of "[JInt 10, JInt 20, JInt 30]"] h by simp
qed

text \<open>
  With capacity 1, the same temperature pushed twice: after the second push, which is
  push \<open>W + 1\<close>, the window still contains the value that was pushed first.
\<close>

theorem first_value_still_present:
  "deque_new 1 = Inr \<lparr>items = ([]::json list), maxlen = 1\<rparr>
   \<and> length [JInt 7, JInt 7] = nat 1 + 1
   \<and> hd [JInt 7, JInt 7]
        \<in> set (items (pushes \<lparr>items = [], maxlen = 1\<rparr> [JInt 7, JInt 7]))"
  by (simp add: deque_new_def deque_append_def)

section \<open>What the built-in operations raise\<close>

lemma py_lt_raises:
  "py_lt a b = Inl e \<Longrightarrow> e = TypeError"
  "py_lt_list xs ys = Inl e \<Longrightarrow> e = TypeError"
  by (induction a b and xs ys rule: py_lt_py_lt_list.induct)
     (auto simp add: num_lt_def split: option.splits json.splits list.splits if_splits)

lemma max_scan_raises: "max_scan m xs = Inl e \<Longrightarrow> e = TypeError"
  by (induction xs arbitrary: m)
     (auto simp add: py_gt_def split: sum.splits dest: py_lt_raises(1))

lemma min_scan_raises: "min_scan m xs = Inl e \<Longrightarrow> e = TypeError"
  by (induction xs arbitrary: m) (auto split: sum.splits dest: py_lt_raises(1))

lemma py_max_raises: "py_max xs = Inl e \<Longrightarrow> e = TypeError \<or> e = ValueError"
  by (cases xs) (auto dest: max_scan_raises)

lemma py_min_raises: "py_min xs = Inl e \<Longrightarrow> e = TypeError \<or> e = ValueError"
  by (cases xs) (auto dest: min_scan_raises)

lemma to_double_raises: "to_double a = Inl e \<Longrightarrow> e = TypeError \<or> e = OverflowError"
  by (cases a) (auto split: xnum.splits)

lemma py_sub_raises: "py_sub a b = Inl e \<Longrightarrow> e = TypeError \<or> e = OverflowError"
  by (auto simp add: py_sub_def split: option.splits sum.splits dest: to_double_raises)

section \<open>The range over a window of numbers\<close>










section \<open>Processing a valid record\<close>



lemma process_message_body_valid:
  assumes "loads message = Some (JObj kvs)"
    and "JNull \<notin> set [dict_get kvs ''timestamp'', dict_get kvs ''temperature'',
                         dict_get kvs ''humidity'', dict_get kvs ''pressure'']"
  shows "process_message_body loads message d W lg =
     (let window = deque_append d (dict_get kvs ''temperature'');
          log3 = lg @ [Raw_message message, Processed_JSON_message (JObj kvs),
                       Weather_Data (dict_get kvs ''timestamp'')
                         (dict_get kvs ''temperature'') (dict_get kvs ''humidity'')
                         (dict_get kvs ''pressure'')]
      in if int (length (items window)) = W
         then (case py_max (items window) of
                 Inl e \<Rightarrow> (Some e, window, log3)
               | Inr hi \<Rightarrow>
                 (case py_min (items window) of
                    Inl e \<Rightarrow> (Some e, window, log3)
                  | Inr lo \<Rightarrow>
                    (case py_sub hi lo of
                       Inl e \<Rightarrow> (Some e, window, log3)
                     | Inr temp_range \<Rightarrow>
                         (None, window, log3 @ [Temperature_range W temp_range]))))
         else (None, window, log3))"
  using assms by (simp add: process_message_body_def Let_def split: sum.splits)

text \<open>
  Every valid record is pushed into the window, whatever the type of its temperature: the
  window after the call is the window before it with the temperature appended.
\<close>

lemma process_message_appends:
  assumes "loads message = Some (JObj kvs)"
    and "JNull \<notin> set [dict_get kvs ''timestamp'', dict_get kvs ''temperature'',
                         dict_get kvs ''humidity'', dict_get kvs ''pressure'']"
  shows "fst (snd (process_message loads message d W lg)) =
           deque_append d (dict_get kvs ''temperature'')"
  by (simp add: process_message_def Let_def
        process_message_body_valid [where loads = loads and message = message, OF assms]
        split: sum.splits)





lemmas sample_defs = sample_loads_def payload_def payload_no_temperature_def
  text_hot_def reading_def
lemmas run_defs = process_message_def process_message_body_def dict_get_def
  deque_append_def py_gt_def py_sub_def num_lt_def Let_def




text \<open>
  The doubles nearest to 25.3 and to -5.2: their exact difference is not a double, and the
  difference computed is 30.5.
\<close>

lemma round_double_example:
  "round_double (7121316910779597 / 2 ^ 48 - (- 5854679515581645 / 2 ^ 50)) = Finite (61 / 2)"
  by code_simp

section \<open>The derived metric\<close>



section \<open>Rejected records\<close>

lemma process_message_malformed:
  "loads message = None \<Longrightarrow>
   process_message loads message d W lg =
     (None, d, lg @ [Raw_message message, JSON_decoding_error message])"
  by (simp add: process_message_def process_message_body_def Let_def)

lemma dict_get_absent: "map_of kvs k = None \<Longrightarrow> dict_get kvs k = JNull"
  by (simp add: dict_get_def)

lemma process_message_missing:
  assumes "loads message = Some (JObj kvs)"
    and "\<exists>k \<in> set [''timestamp'', ''temperature'', ''humidity'', ''pressure''].
           map_of kvs k = None"
  shows "process_message loads message d W lg =
     (None, d, lg @ [Raw_message message, Processed_JSON_message (JObj kvs),
                     Invalid_message_format message])"
proof -
  have "JNull \<in> set [dict_get kvs ''timestamp'', dict_get kvs ''temperature'',
                      dict_get kvs ''humidity'', dict_get kvs ''pressure'']"
    using assms(2) by (auto simp add: dict_get_absent)
  then show ?thesis
    using assms(1) by (simp add: process_message_def process_message_body_def Let_def)
qed

section \<open>No exception leaves \<^verbatim>\<open>process_message\<close>\<close>

lemma process_message_body_raises:
  "process_message_body loads message d W lg = (Some e, w, lg') \<Longrightarrow> is_Exception e"
  by (auto simp add: process_message_body_def Let_def
        split: option.splits json.splits if_splits sum.splits
        dest: py_max_raises py_min_raises py_sub_raises)

lemma process_message_no_escape: "fst (process_message loads message d W lg) = None"
proof (cases "process_message_body loads message d W lg")
  case (fields r w lg')
  then show ?thesis
    by (cases r) (auto simp add: process_message_def dest: process_message_body_raises)
qed

section \<open>Rejections are local\<close>

text \<open>
  C4. A payload that decodes to a JSON object in which one of the required keys
  \<^verbatim>\<open>timestamp\<close>, \<^verbatim>\<open>temperature\<close>, \<^verbatim>\<open>humidity\<close>, \<^verbatim>\<open>pressure\<close> is absent is
  rejected for its missing field: the error "Invalid message format" is logged, the
  call returns, the rolling window is as it was, and the loop of \<^verbatim>\<open>main\<close> goes on with
  the next message.
\<close>

theorem missing_field_rejected:
  assumes "loads message = Some (JObj kvs)"
    and "\<exists>k \<in> set [''timestamp'', ''temperature'', ''humidity'', ''pressure''].
           map_of kvs k = None"
  shows "process_message loads message d W lg =
           (None, d, lg @ [Raw_message message, Processed_JSON_message (JObj kvs),
                           Invalid_message_format message])
       \<and> poll_loop loads W (Message off message # rest) d lg =
           poll_loop loads W rest d
             (lg @ [Received_message off message, Raw_message message,
                    Processed_JSON_message (JObj kvs), Invalid_message_format message])"
  using process_message_missing [where loads = loads and message = message, OF assms]
  by simp

theorem missing_field_rejected_witness:
  "sample_loads payload_no_temperature =
     Some (JObj [(''timestamp'', JStr ''t1''), (''humidity'', JInt 60),
                 (''pressure'', JFloat (2027 / 2))])
   \<and> map_of [(''timestamp'', JStr ''t1''), (''humidity'', JInt 60),
              (''pressure'', JFloat (2027 / 2))] ''temperature'' = None
   \<and> process_message sample_loads payload_no_temperature
         \<lparr>items = [JInt 20], maxlen = 5\<rparr> 5 [] =
       (None, \<lparr>items = [JInt 20], maxlen = 5\<rparr>,
        [Raw_message payload_no_temperature,
         Processed_JSON_message
           (JObj [(''timestamp'', JStr ''t1''), (''humidity'', JInt 60),
                  (''pressure'', JFloat (2027 / 2))]),
         Invalid_message_format payload_no_temperature])"
proof -
  let ?kvs = "[(''timestamp'', JStr ''t1''), (''humidity'', JInt 60),
               (''pressure'', JFloat (2027 / 2))]"
  have dec: "sample_loads payload_no_temperature = Some (JObj ?kvs)"
    by (simp add: sample_defs)
  have miss: "\<exists>k \<in> set [''timestamp'', ''temperature'', ''humidity'', ''pressure''].
                map_of ?kvs k = None"
    by simp
  show ?thesis
    using missing_field_rejected [where loads = sample_loads, OF dec miss,
            of "\<lparr>items = [JInt 20], maxlen = 5\<rparr>" 5 "[]"] dec
    by simp
qed

text \<open>
  C5. A payload that does not decode as JSON (one cut short, say) leaves the rolling
  window as it was and no exception leaves \<^verbatim>\<open>process_message\<close>: the decoding error is
  logged. After a malformed payload and after a record with a missing field alike, the
  loop of \<^verbatim>\<open>main\<close> goes on with the next message, so neither ends the process.
\<close>

theorem rejection_isolated:
  "(loads message = None \<longrightarrow>
      process_message loads message d W lg =
        (None, d, lg @ [Raw_message message, JSON_decoding_error message])
      \<and> poll_loop loads W (Message off message # rest) d lg =
          poll_loop loads W rest d
            (lg @ [Received_message off message, Raw_message message,
                   JSON_decoding_error message]))
   \<and> (loads message = Some (JObj kvs)
        \<and> (\<exists>k \<in> set [''timestamp'', ''temperature'', ''humidity'', ''pressure''].
              map_of kvs k = None) \<longrightarrow>
      fst (process_message loads message d W lg) = None
      \<and> fst (snd (process_message loads message d W lg)) = d
      \<and> poll_loop loads W (Message off message # rest) d lg =
          poll_loop loads W rest d
            (snd (snd (process_message loads message d W
                         (lg @ [Received_message off message])))))
   \<and> sample_loads payload_truncated = None"
proof -
  have "sample_loads payload_truncated = None"
    by (simp add: sample_defs payload_truncated_def)
  then show ?thesis
    using process_message_malformed [of loads message]
      process_message_missing [where loads = loads and message = message and kvs = kvs]
    by simp
qed

theorem rejection_isolated_witness:
  "sample_loads payload_truncated = None
   \<and> process_message sample_loads payload_truncated
         \<lparr>items = [JInt 20], maxlen = 5\<rparr> 5 [] =
       (None, \<lparr>items = [JInt 20], maxlen = 5\<rparr>,
        [Raw_message payload_truncated, JSON_decoding_error payload_truncated])
   \<and> poll_loop sample_loads 5 [Message 0 payload_truncated]
         \<lparr>items = [JInt 20], maxlen = 5\<rparr> [] =
       (None, \<lparr>items = [JInt 20], maxlen = 5\<rparr>,
        [Received_message 0 payload_truncated, Raw_message payload_truncated,
         JSON_decoding_error payload_truncated])"
proof -
  have h: "sample_loads payload_truncated = None"
    by (simp add: sample_defs payload_truncated_def)
  show ?thesis
    using rejection_isolated [of sample_loads payload_truncated
            "\<lparr>items = [JInt 20], maxlen = 5\<rparr>" 5 "[]" 0 "[]"] h
    by simp
qed

text \<open>
  C10. \<^verbatim>\<open>process_message\<close> returns for every message and every window: no exception
  reaches its caller, whatever the payload decodes to. In particular a record whose
  temperature is a string is pushed into the window, the computation of the range then
  raises \<^verbatim>\<open>TypeError\<close>, and the handler for \<^verbatim>\<open>Exception\<close> logs it.
\<close>

theorem process_message_total:
  "fst (process_message loads message d W lg) = None
   \<and> process_message sample_loads (payload ''t10'' text_hot)
         \<lparr>items = [JInt 20, JInt 21], maxlen = 3\<rparr> 3 lg0 =
       (None, \<lparr>items = [JInt 20, JInt 21, JStr ''hot''], maxlen = 3\<rparr>,
        lg0 @ [Raw_message (payload ''t10'' text_hot),
               Processed_JSON_message (reading ''t10'' (JStr ''hot'')),
               Weather_Data (JStr ''t10'') (JStr ''hot'') (JInt 60) (JFloat (2027 / 2)),
               Error_processing_message (payload ''t10'' text_hot) TypeError])"
proof -
  have "process_message sample_loads (payload ''t10'' text_hot)
         \<lparr>items = [JInt 20, JInt 21], maxlen = 3\<rparr> 3 lg0 =
       (None, \<lparr>items = [JInt 20, JInt 21, JStr ''hot''], maxlen = 3\<rparr>,
        lg0 @ [Raw_message (payload ''t10'' text_hot),
               Processed_JSON_message (reading ''t10'' (JStr ''hot'')),
               Weather_Data (JStr ''t10'') (JStr ''hot'') (JInt 60) (JFloat (2027 / 2)),
               Error_processing_message (payload ''t10'' text_hot) TypeError])"
    by (simp add: sample_defs run_defs)
  then show ?thesis by (simp add: process_message_no_escape)
qed

section \<open>Leaving the loop of the consumer\<close>

lemma poll_loop_messages:
  "list_all is_Message pre \<Longrightarrow>
   \<exists>d' lg'. poll_loop loads W (pre @ rest) d lg = poll_loop loads W rest d' lg'"
proof (induction pre arbitrary: d lg)
  case Nil
  then show ?case by auto
next
  case (Cons p pre)
  then obtain off m where p: "p = Message off m" by (cases p) auto
  obtain r d1 lg1 where pm:
    "process_message loads m d W (lg @ [Received_message off m]) = (r, d1, lg1)"
    by (cases "process_message loads m d W (lg @ [Received_message off m])") auto
  have "r = None"
    using process_message_no_escape [of loads m d W "lg @ [Received_message off m]"] pm
    by simp
  with pm p have "poll_loop loads W ((p # pre) @ rest) d lg =
      poll_loop loads W (pre @ rest) d1 lg1" by simp
  moreover from Cons have "\<exists>d' lg'. poll_loop loads W (pre @ rest) d1 lg1 =
      poll_loop loads W rest d' lg'" by simp
  ultimately show ?case by simp
qed

lemma poll_loop_end:
  "list_all is_Message consumer \<Longrightarrow>
   \<exists>d' lg'. poll_loop loads W consumer d lg = (None, d', lg')"
  using poll_loop_messages [of consumer loads W "[]" d lg] by simp

lemma poll_loop_raise:
  "list_all is_Message pre \<Longrightarrow>
   \<exists>d' lg'. poll_loop loads W (pre @ Poll_raises e # post) d lg = (Some e, d', lg')"
  using poll_loop_messages [of pre loads W "Poll_raises e # post" d lg] by auto

text \<open>Neither \<^verbatim>\<open>process_message\<close> nor the loop closes the consumer.\<close>

lemma process_message_body_no_close:
  "process_message_body loads message d W lg = (r, w, lg') \<Longrightarrow>
   filter is_Consumer_close lg' = filter is_Consumer_close lg"
  by (auto simp add: process_message_body_def Let_def
        split: option.splits json.splits if_splits sum.splits)

lemma process_message_no_close:
  "process_message loads message d W lg = (r, w, lg') \<Longrightarrow>
   filter is_Consumer_close lg' = filter is_Consumer_close lg"
proof (cases "process_message_body loads message d W lg")
  case (fields r0 w0 lg0)
  assume pm: "process_message loads message d W lg = (r, w, lg')"
  have "filter is_Consumer_close lg0 = filter is_Consumer_close lg"
    using fields by (rule process_message_body_no_close)
  with pm fields show ?thesis
    by (cases r0) (auto simp add: process_message_def split: if_splits)
qed

lemma poll_loop_no_close:
  "poll_loop loads W consumer d lg = (r, w, lg') \<Longrightarrow>
   filter is_Consumer_close lg' = filter is_Consumer_close lg"
proof (induction consumer arbitrary: d lg)
  case Nil
  then show ?case by simp
next
  case (Cons p rest)
  show ?case
  proof (cases p)
    case (Poll_raises e)
    with Cons.prems show ?thesis by simp
  next
    case (Message off m)
    obtain r1 w1 lg1 where pm:
      "process_message loads m d W (lg @ [Received_message off m]) = (r1, w1, lg1)"
      by (cases "process_message loads m d W (lg @ [Received_message off m])") auto
    have pre: "filter is_Consumer_close lg1 = filter is_Consumer_close lg"
      using process_message_no_close [OF pm] by simp
    show ?thesis
    proof (cases r1)
      case None
      with pm Message Cons.prems have "poll_loop loads W rest w1 lg1 = (r, w, lg')"
        by simp
      from Cons.IH [OF this] pre show ?thesis by simp
    next
      case (Some e)
      with pm Message Cons.prems pre show ?thesis by auto
    qed
  qed
qed

lemma closes_consume:
  "closes (consume loads topic W consumer d lg) = length (filter is_Consumer_close lg) + 1"
proof (cases "poll_loop loads W consumer d lg")
  case (fields r w lg')
  then have "filter is_Consumer_close lg' = filter is_Consumer_close lg"
    by (rule poll_loop_no_close)
  with fields show ?thesis
    by (cases r) (simp_all add: consume_def closes_def Let_def)
qed

text \<open>
  A window size that \<^verbatim>\<open>deque\<close> refuses ends \<^verbatim>\<open>main\<close> before the consumer
  exists: nothing is closed.
\<close>

lemma consumer_main_no_window:
  "get_rolling_window_size py_int env = Inr W \<Longrightarrow> W < 0 \<or> 2 ^ 63 \<le> W \<Longrightarrow>
   escaped (consumer_main py_int loads env create_kafka_consumer) \<noteq> None
   \<and> closes (consumer_main py_int loads env create_kafka_consumer) = 0"
  by (auto simp add: consumer_main_def Let_def deque_new_def closes_def)

text \<open>
  C6. Once the consumer has been created, \<^verbatim>\<open>consumer.close()\<close> is called exactly once
  on every way out of the loop of \<^verbatim>\<open>main\<close>: when the stream ends, when a poll is
  interrupted, and when the source raises. An interrupt during a poll is handled:
  \<^verbatim>\<open>main\<close> logs it, closes the consumer and returns without an exception; so it does
  for every instance of \<^verbatim>\<open>Exception\<close> raised by the source. An exception of another
  class passes on to the caller of \<^verbatim>\<open>main\<close>, after the consumer has been closed.
\<close>

theorem close_exactly_once:
  "closes (consume loads topic W consumer d lg) = length (filter is_Consumer_close lg) + 1
   \<and> (get_rolling_window_size py_int env = Inr W \<and> 0 \<le> W \<and> W < 2 ^ 63
        \<and> create_kafka_consumer = Inr consumer \<longrightarrow>
      closes (consumer_main py_int loads env create_kafka_consumer) = 1)
   \<and> (list_all is_Message consumer \<longrightarrow>
      escaped (consume loads topic W consumer d lg) = None)
   \<and> (list_all is_Message pre \<longrightarrow>
      escaped (consume loads topic W (pre @ Poll_raises KeyboardInterrupt # post) d lg) = None
      \<and> (\<exists>lg'. logged (consume loads topic W
                          (pre @ Poll_raises KeyboardInterrupt # post) d lg) =
                 lg' @ [Consumer_interrupted, Consumer_close, Kafka_consumer_closed topic]))
   \<and> (list_all is_Message pre \<and> is_Exception e \<longrightarrow>
      escaped (consume loads topic W (pre @ Poll_raises e # post) d lg) = None
      \<and> (\<exists>lg'. logged (consume loads topic W (pre @ Poll_raises e # post) d lg) =
                 lg' @ [Error_while_consuming e, Consumer_close,
                        Kafka_consumer_closed topic]))
   \<and> (list_all is_Message pre \<and> \<not> is_Exception e \<and> e \<noteq> KeyboardInterrupt \<longrightarrow>
      escaped (consume loads topic W (pre @ Poll_raises e # post) d lg) = Some e
      \<and> (\<exists>lg'. logged (consume loads topic W (pre @ Poll_raises e # post) d lg) =
                 lg' @ [Consumer_close, Kafka_consumer_closed topic]))"
proof -
  have main: "closes (consumer_main py_int loads env create_kafka_consumer) = 1"
    if "get_rolling_window_size py_int env = Inr W" "0 \<le> W" "W < 2 ^ 63"
       "create_kafka_consumer = Inr consumer"
    using that by (simp add: consumer_main_def Let_def deque_new_def closes_consume)
  have fin: "escaped (consume loads topic W consumer d lg) = None"
    if "list_all is_Message consumer"
    using poll_loop_end [OF that, of loads W d lg] by (auto simp add: consume_def)
  have intr: "escaped (consume loads topic W (pre @ Poll_raises KeyboardInterrupt # post) d lg)
        = None
      \<and> (\<exists>lg'. logged (consume loads topic W
                          (pre @ Poll_raises KeyboardInterrupt # post) d lg) =
                 lg' @ [Consumer_interrupted, Consumer_close, Kafka_consumer_closed topic])"
    if "list_all is_Message pre"
    using poll_loop_raise [OF that, of loads W KeyboardInterrupt post d lg]
    by (auto simp add: consume_def)
  have exc: "escaped (consume loads topic W (pre @ Poll_raises e # post) d lg) = None
      \<and> (\<exists>lg'. logged (consume loads topic W (pre @ Poll_raises e # post) d lg) =
                 lg' @ [Error_while_consuming e, Consumer_close,
                        Kafka_consumer_closed topic])"
    if "list_all is_Message pre" "is_Exception e"
    using poll_loop_raise [OF that(1), of loads W e post d lg] that(2)
    by (auto simp add: consume_def)
  have base: "escaped (consume loads topic W (pre @ Poll_raises e # post) d lg) = Some e
      \<and> (\<exists>lg'. logged (consume loads topic W (pre @ Poll_raises e # post) d lg) =
                 lg' @ [Consumer_close, Kafka_consumer_closed topic])"
    if "list_all is_Message pre" "\<not> is_Exception e" "e \<noteq> KeyboardInterrupt"
    using poll_loop_raise [OF that(1), of loads W e post d lg] that(2,3)
    by (auto simp add: consume_def)
  show ?thesis
    using closes_consume [of loads topic W consumer d lg] main fin intr exc base
    by blast
qed

theorem close_exactly_once_witness:
  "get_rolling_window_size (\<lambda>s. None) (\<lambda>name. None) = Inr 5
   \<and> (0::int) \<le> 5 \<and> (5::int) < 2 ^ 63
   \<and> closes (consumer_main (\<lambda>s. None) sample_loads (\<lambda>name. None)
               (Inr [Message 0 (payload ''t1'' ''20''), Poll_raises KeyboardInterrupt])) = 1
   \<and> list_all is_Message [Message 0 (payload ''t1'' ''20'')]
   \<and> escaped (consume sample_loads ''weather_data_topic'' 5
                ([Message 0 (payload ''t1'' ''20'')] @ [Poll_raises KeyboardInterrupt])
                \<lparr>items = [], maxlen = 5\<rparr> []) = None"
proof -
  have w: "get_rolling_window_size (\<lambda>s. None) (\<lambda>name. None) = Inr 5"
    by (simp add: get_rolling_window_size_def getenv_int_def)
  have m: "list_all is_Message [Message 0 (payload ''t1'' ''20'')]" by simp
  show ?thesis
    using close_exactly_once
      [where py_int = "\<lambda>s. None" and env = "\<lambda>name. None" and W = 5
         and loads = sample_loads and topic = "''weather_data_topic''"
         and create_kafka_consumer =
           "Inr [Message 0 (payload ''t1'' ''20''), Poll_raises KeyboardInterrupt]"
         and consumer = "[Message 0 (payload ''t1'' ''20''), Poll_raises KeyboardInterrupt]"
         and pre = "[Message 0 (payload ''t1'' ''20'')]" and post = "[]"
         and d = "\<lparr>items = [], maxlen = 5\<rparr>" and lg = "[]"]
      w m
    by simp
qed

section \<open>The generator\<close>

lemma gen_calls_suspended:
  "gen_calls (Suspended c) n = map (\<lambda>k. build_message (c + 1 + int k)) [0..<n]"
proof (induction n arbitrary: c)
  case 0
  then show ?case by simp
next
  case (Suc n)
  have "gen_calls (Suspended c) (Suc n) =
        build_message (c + 1) # gen_calls (Suspended (c + 1)) n"
    by (simp add: Let_def)
  also have "\<dots> = build_message (c + 1) #
        map (\<lambda>k. build_message (c + 1 + int (Suc k))) [0..<n]"
    by (simp add: Suc algebra_simps)
  also have "\<dots> = map (\<lambda>k. build_message (c + 1 + int k)) [0..<Suc n]"
    by (simp only: map_upt_Suc) simp
  finally show ?case .
qed

lemma gen_calls_created:
  "gen_calls Created n = map (\<lambda>k. build_message (int k + 1)) [0..<n]"
proof (cases n)
  case 0
  then show ?thesis by simp
next
  case (Suc m)
  have "gen_calls Created (Suc m) = build_message 1 # gen_calls (Suspended 1) m"
    by (simp add: Let_def)
  also have "\<dots> = build_message 1 # map (\<lambda>k. build_message (int (Suc k) + 1)) [0..<m]"
    by (simp add: gen_calls_suspended algebra_simps)
  also have "\<dots> = map (\<lambda>k. build_message (int k + 1)) [0..<Suc m]"
    by (simp only: map_upt_Suc) simp
  finally show ?thesis using Suc by simp
qed

text \<open>
  C7. The first call of the generator yields the message for the counter value 1, and
  every later call advances the counter by exactly 1 before it yields: the \<open>k\<close>-th call
  yields the message for the counter value \<open>k\<close>. In the message for the counter value
  \<open>c\<close> the status is "Completed" and the destination "Airport" when \<open>c mod 2 = 0\<close>,
  "In Progress" and "Hotel" otherwise, so both alternate from one message to the next, and
  the duration is \<open>c * 10\<close>.
\<close>

theorem generator_fields:
  "gen_next Created None =
     ([Generated_JSON (build_message 1)], Inr (build_message 1, Suspended 1))
   \<and> snd (gen_next (Suspended c) None) = Inr (build_message (c + 1), Suspended (c + 1))
   \<and> gen_calls Created n = map (\<lambda>k. build_message (int k + 1)) [0..<n]
   \<and> ride_id (build_message c) = py_str c
   \<and> status (build_message c) = (if c mod 2 = 0 then ''Completed'' else ''In Progress'')
   \<and> dropoff_location (build_message c) = (if c mod 2 = 0 then ''Airport'' else ''Hotel'')
   \<and> duration (build_message c) = c * 10
   \<and> status (build_message (c + 1)) \<noteq> status (build_message c)
   \<and> dropoff_location (build_message (c + 1)) \<noteq> dropoff_location (build_message c)
   \<and> gen_calls Created 2 =
       [\<lparr>ride_id = ''1'', service = ''Uber'', status = ''In Progress'', duration = 10,
         pickup_location = ''Downtown'', dropoff_location = ''Hotel''\<rparr>,
        \<lparr>ride_id = ''2'', service = ''Uber'', status = ''Completed'', duration = 20,
         pickup_location = ''Downtown'', dropoff_location = ''Airport''\<rparr>]"
proof -
  have alt: "(c + 1) mod 2 = 0 \<longleftrightarrow> c mod 2 \<noteq> 0" by presburger
  have two: "gen_calls Created 2 =
       [\<lparr>ride_id = ''1'', service = ''Uber'', status = ''In Progress'', duration = 10,
         pickup_location = ''Downtown'', dropoff_location = ''Hotel''\<rparr>,
        \<lparr>ride_id = ''2'', service = ''Uber'', status = ''Completed'', duration = 20,
         pickup_location = ''Downtown'', dropoff_location = ''Airport''\<rparr>]"
    by (simp add: numeral_2_eq_2 Let_def build_message_def py_str_def str_nat.simps
          digit_char_def)
  show ?thesis
    using gen_calls_created [of n] two
    by (simp add: Let_def build_message_def alt)
qed

section \<open>Start-up failures of the producer\<close>

text \<open>
  C8. Once the services are verified and the settings read, a producer handle that
  cannot be constructed (\<^verbatim>\<open>create_kafka_producer\<close> returns no producer) ends the
  process through \<^verbatim>\<open>sys.exit(3)\<close>, with exit status 3; a topic that cannot be
  provisioned (\<^verbatim>\<open>create_kafka_topic\<close> raises an \<^verbatim>\<open>Exception\<close>) ends it
  through \<^verbatim>\<open>sys.exit(1)\<close>, with exit status 1. The two codes differ and neither is 0.
\<close>

theorem producer_exit_codes:
  "(verify_services = None \<and> get_message_interval py_int env = Inr interval_secs
      \<and> create_kafka_producer = Inr False \<longrightarrow>
      outcome (producer_main py_int env verify_services create_kafka_producer
                 create_kafka_topic ticks) = sys_exit 3
      \<and> exit_status (outcome (producer_main py_int env verify_services create_kafka_producer
                                create_kafka_topic ticks)) = Some 3)
   \<and> (verify_services = None \<and> get_message_interval py_int env = Inr interval_secs
      \<and> create_kafka_producer = Inr True \<and> create_kafka_topic = Some e \<and> is_Exception e
      \<longrightarrow>
      outcome (producer_main py_int env verify_services create_kafka_producer
                 create_kafka_topic ticks) = sys_exit 1
      \<and> exit_status (outcome (producer_main py_int env verify_services create_kafka_producer
                                create_kafka_topic ticks)) = Some 1)
   \<and> sys_exit 3 \<noteq> sys_exit 1 \<and> exit_status (sys_exit 3) \<noteq> Some 0
   \<and> exit_status (sys_exit 1) \<noteq> Some 0"
  by (simp add: producer_main_def Let_def sys_exit_def)

theorem producer_exit_codes_witness:
  "get_message_interval sample_int interval_env = Inr 5
   \<and> is_Exception (OtherException ''NoBrokersAvailable'')
   \<and> exit_status (outcome (producer_main sample_int interval_env None (Inr False) None []))
       = Some 3
   \<and> exit_status (outcome (producer_main sample_int interval_env None (Inr True)
                             (Some (OtherException ''NoBrokersAvailable'')) []))
       = Some 1"
proof -
  have i: "get_message_interval sample_int interval_env = Inr 5"
    by (simp add: get_message_interval_def getenv_int_def interval_env_def sample_int_def)
  show ?thesis
    using i
      producer_exit_codes [where py_int = sample_int and env = interval_env
        and verify_services = None and create_kafka_producer = "Inr False"
        and interval_secs = 5 and create_kafka_topic = None and ticks = "[]"]
      producer_exit_codes [where py_int = sample_int and env = interval_env
        and verify_services = None and create_kafka_producer = "Inr True"
        and interval_secs = 5 and e = "OtherException ''NoBrokersAvailable''"
        and create_kafka_topic = "Some (OtherException ''NoBrokersAvailable'')"
        and ticks = "[]"]
    by (simp add: sys_exit_def)
qed

section \<open>The cadence of the producer\<close>

lemma send_loop_suspended:
  "\<exists>tr'. send_loop topic (Suspended c) (replicate k (None, None)) tr = (Still_running, tr')
     \<and> map is_Sleep (filter (\<lambda>ev. is_Sleep ev \<or> is_Send ev) tr') =
         map is_Sleep (filter (\<lambda>ev. is_Sleep ev \<or> is_Send ev) tr)
           @ concat (replicate k [True, False])"
proof (induction k arbitrary: c tr)
  case 0
  then show ?case by simp
next
  case (Suc k)
  let ?m = "build_message (c + 1)"
  let ?tr = "tr @ [Sleep 2, Generated_JSON ?m] @ [Send topic ?m, Sent_message topic ?m]"
  have step: "send_loop topic (Suspended c) (replicate (Suc k) (None, None)) tr =
        send_loop topic (Suspended (c + 1)) (replicate k (None, None)) ?tr"
    by (simp add: Let_def send_message_def)
  from Suc [of "c + 1" ?tr] obtain tr' where
    "send_loop topic (Suspended (c + 1)) (replicate k (None, None)) ?tr = (Still_running, tr')"
    "map is_Sleep (filter (\<lambda>ev. is_Sleep ev \<or> is_Send ev) tr') =
       map is_Sleep (filter (\<lambda>ev. is_Sleep ev \<or> is_Send ev) ?tr)
         @ concat (replicate k [True, False])"
    by blast
  with step show ?case by simp
qed

lemma send_loop_created:
  "\<exists>tr'. send_loop topic Created (replicate (Suc k) (None, None)) tr = (Still_running, tr')
     \<and> map is_Sleep (filter (\<lambda>ev. is_Sleep ev \<or> is_Send ev) tr') =
         map is_Sleep (filter (\<lambda>ev. is_Sleep ev \<or> is_Send ev) tr)
           @ False # concat (replicate k [True, False])"
proof -
  let ?m = "build_message 1"
  let ?tr = "tr @ [Generated_JSON ?m] @ [Send topic ?m, Sent_message topic ?m]"
  have step: "send_loop topic Created (replicate (Suc k) (None, None)) tr =
        send_loop topic (Suspended 1) (replicate k (None, None)) ?tr"
    by (simp add: Let_def send_message_def)
  from send_loop_suspended [of topic 1 k ?tr] obtain tr' where
    "send_loop topic (Suspended 1) (replicate k (None, None)) ?tr = (Still_running, tr')"
    "map is_Sleep (filter (\<lambda>ev. is_Sleep ev \<or> is_Send ev) tr') =
       map is_Sleep (filter (\<lambda>ev. is_Sleep ev \<or> is_Send ev) ?tr)
         @ concat (replicate k [True, False])"
    by blast
  with step show ?thesis by simp
qed

text \<open>
  C9, amended. The message interval is resolved at start-up from the environment, with
  the default 2 when the variable is unset. The delay between consecutive emissions is
  imposed by the generator itself: every call of \<^verbatim>\<open>next\<close> after the first sleeps once
  before it yields, whereas the first call and the body of the caller's loop (send and
  log) do not sleep. So while the producer runs, the first message is sent without a
  preceding sleep and exactly one sleep separates each send from the next.
\<close>

theorem cadence_in_generator:
  "(env ''TRANSPORT_INTERVAL_SECONDS'' = None \<longrightarrow>
      get_message_interval py_int env = Inr 2)
   \<and> (env ''TRANSPORT_INTERVAL_SECONDS'' = Some s \<and> py_int s = Some n \<longrightarrow>
      get_message_interval py_int env = Inr n)
   \<and> (\<exists>secs. fst (gen_next (Suspended c) None) =
               [Sleep secs, Generated_JSON (build_message (c + 1))])
   \<and> list_all (\<lambda>ev. \<not> is_Sleep ev) (fst (gen_next Created sleep_outcome))
   \<and> list_all (\<lambda>ev. \<not> is_Sleep ev) (fst (send_message topic message_dict send_outcome))
   \<and> (get_message_interval py_int env = Inr interval_secs \<longrightarrow>
      outcome (producer_main py_int env None (Inr True) None
                 (replicate (Suc k) (None, None))) = Running
      \<and> map is_Sleep
          (filter (\<lambda>ev. is_Sleep ev \<or> is_Send ev)
             (trace (producer_main py_int env None (Inr True) None
                       (replicate (Suc k) (None, None)))))
        = False # concat (replicate k [True, False]))"
proof -
  have run: "outcome (producer_main py_int env None (Inr True) None
                 (replicate (Suc k) (None, None))) = Running
      \<and> map is_Sleep
          (filter (\<lambda>ev. is_Sleep ev \<or> is_Send ev)
             (trace (producer_main py_int env None (Inr True) None
                       (replicate (Suc k) (None, None)))))
        = False # concat (replicate k [True, False])"
    if i: "get_message_interval py_int env = Inr interval_secs"
  proof -
    let ?topic = "producer_get_kafka_topic env"
    let ?tr = "[START_producer] @ [Producer_kafka_topic ?topic]
                 @ [Message_interval interval_secs]
                 @ [Topic_is_ready ?topic, Starting_production ?topic]"
    from send_loop_created [of ?topic k ?tr] obtain tr' where
      "send_loop ?topic Created (replicate (Suc k) (None, None)) ?tr = (Still_running, tr')"
      "map is_Sleep (filter (\<lambda>ev. is_Sleep ev \<or> is_Send ev) tr') =
         map is_Sleep (filter (\<lambda>ev. is_Sleep ev \<or> is_Send ev) ?tr)
           @ False # concat (replicate k [True, False])"
      by blast
    then show ?thesis
      using i by (simp add: producer_main_def Let_def del: replicate_Suc send_loop.simps)
  qed
  have "list_all (\<lambda>ev. \<not> is_Sleep ev) (fst (send_message topic message_dict send_outcome))"
    by (cases send_outcome) (simp_all add: send_message_def)
  with run show ?thesis
    by (simp add: get_message_interval_def getenv_int_def Let_def)
qed

theorem cadence_in_generator_witness:
  "interval_env ''TRANSPORT_INTERVAL_SECONDS'' = Some ''5''
   \<and> sample_int ''5'' = Some 5
   \<and> get_message_interval sample_int interval_env = Inr 5
   \<and> get_message_interval sample_int (\<lambda>name. None) = Inr 2
   \<and> outcome (producer_main sample_int interval_env None (Inr True) None
                 (replicate (Suc 2) (None, None))) = Running
   \<and> map is_Sleep
        (filter (\<lambda>ev. is_Sleep ev \<or> is_Send ev)
           (trace (producer_main sample_int interval_env None (Inr True) None
                     (replicate (Suc 2) (None, None)))))
      = [False, True, False, True, False]"
proof -
  have e: "interval_env ''TRANSPORT_INTERVAL_SECONDS'' = Some ''5''"
    by (simp add: interval_env_def)
  have p: "sample_int ''5'' = Some 5" by (simp add: sample_int_def)
  have i: "get_message_interval sample_int interval_env = Inr 5"
    using cadence_in_generator [where env = interval_env and py_int = sample_int
            and s = "''5''" and n = 5] e p
    by blast
  have d: "get_message_interval sample_int (\<lambda>name. None) = Inr 2"
    using cadence_in_generator [where env = "\<lambda>name. None" and py_int = sample_int]
    by blast
  have r: "outcome (producer_main sample_int interval_env None (Inr True) None
                 (replicate (Suc 2) (None, None))) = Running
      \<and> map is_Sleep
          (filter (\<lambda>ev. is_Sleep ev \<or> is_Send ev)
             (trace (producer_main sample_int interval_env None (Inr True) None
                       (replicate (Suc 2) (None, None)))))
        = False # concat (replicate 2 [True, False])"
    using cadence_in_generator [where env = interval_env and py_int = sample_int
            and interval_secs = 5 and k = 2] i
    by blast
  have "concat (replicate 2 [True, False]) = [True, False, True, False]"
    by (simp add: numeral_2_eq_2)
  with e p i d r show ?thesis by simp
qed

text \<open>
  With the interval set to 5 seconds in the environment, the value 5 is read and logged,
  and the one delay between the first two emissions is the generator's own sleep of 2
  seconds; the loop body of \<^verbatim>\<open>main\<close> contributes the send and its log entry only.
\<close>

theorem configured_interval_ignored:
  "get_message_interval sample_int interval_env = Inr 5
   \<and> trace (producer_main sample_int interval_env None (Inr True) None
              [(None, None), (None, None)]) =
       [START_producer, Producer_kafka_topic ''transportation_updates'',
        Message_interval 5, Topic_is_ready ''transportation_updates'',
        Starting_production ''transportation_updates'',
        Generated_JSON (build_message 1),
        Send ''transportation_updates'' (build_message 1),
        Sent_message ''transportation_updates'' (build_message 1),
        Sleep 2,
        Generated_JSON (build_message 2),
        Send ''transportation_updates'' (build_message 2),
        Sent_message ''transportation_updates'' (build_message 2)]
   \<and> fst (gen_next (Suspended 1) None) = [Sleep 2, Generated_JSON (build_message 2)]
   \<and> fst (send_message ''transportation_updates'' (build_message 2) None) =
       [Send ''transportation_updates'' (build_message 2),
        Sent_message ''transportation_updates'' (build_message 2)]"
  by (simp add: producer_main_def get_message_interval_def getenv_int_def interval_env_def
        sample_int_def producer_get_kafka_topic_def getenv_def send_message_def Let_def)

end
